theory Spec2Isabelle
  imports
    Complex_Main
    "HOL-Library.Log_Nat"
    "HOL-Library.Stream"
    "HOL-Library.Sublist"
    "HOL-Library.Word"
begin

section \<open>The Fashion MNIST prediction endpoint\<close>

text \<open>
  This theory embeds \<^verbatim>\<open>superbase/functions/predict/index.ts\<close>: the constants
  \<^verbatim>\<open>corsHeaders\<close> and \<^verbatim>\<open>classNames\<close>, the functions \<^verbatim>\<open>mockPrediction\<close> and
  \<^verbatim>\<open>preprocessImage\<close>, and the request handler given to \<^verbatim>\<open>Deno.serve\<close>.

  The handler is sequential code with three kinds of effect, all made explicit:
  \<^item> \<^verbatim>\<open>Math.random()\<close> reads and advances the generator of the runtime: the generator
    is a stream of the numbers it is going to deliver, held in the world state;
  \<^item> exceptions (a rejected \<^verbatim>\<open>req.formData()\<close>, a \<^verbatim>\<open>TypeError\<close>) are values of a sum
    type, caught by the model of the \<^verbatim>\<open>catch\<close> block;
  \<^item> reading the request body, calling the two pipeline functions and writing to the
    console are recorded, in program order, in a trace held in the world state. The
    program never reads the trace.
\<close>

subsection \<open>JavaScript numbers\<close>

text \<open>
  A finite JavaScript number is an IEEE 754 binary64 value, modelled by the rational it
  denotes. Every arithmetic operation computes the exact result and rounds it to the
  nearest representable value, ties to the even significand. \<open>rne\<close> rounds a rational
  to the nearest integer, ties to even; \<open>ilog2 x\<close> is the exponent of the binade of a
  positive \<open>x\<close>, that is \<open>\<lfloor>log\<^sub>2 x\<rfloor>\<close>; \<open>round_binary p emin\<close> rounds to a format of
  \<open>p\<close> significant bits whose smallest normal exponent is \<open>emin\<close> (below it the
  spacing stays that of the subnormal numbers). Overflow to \<^verbatim>\<open>Infinity\<close> is not
  modelled: it needs a magnitude of \<open>2\<^sup>1\<^sup>0\<^sup>2\<^sup>4\<close>, and every number this program computes
  is below 16 (lemmas \<open>index_product_bound\<close> and \<open>confidence_bounds\<close>).
\<close>

definition rne :: "rat \<Rightarrow> int" where
  "rne t = (let f = \<lfloor>t\<rfloor>; d = t - of_int f in
     if d < 1 / 2 then f
     else if 1 / 2 < d then f + 1
     else if even f then f else f + 1)"

definition ilog2 :: "rat \<Rightarrow> int" where
  "ilog2 x = (if 1 \<le> x then bitlen \<lfloor>x\<rfloor> - 1 else - bitlen (\<lceil>1 / x\<rceil> - 1))"

definition round_binary :: "nat \<Rightarrow> int \<Rightarrow> rat \<Rightarrow> rat" where
  "round_binary p emin x = (if x = 0 then 0 else
     let e = max (ilog2 \<bar>x\<bar>) emin; q = 2 powi (e - (int p - 1))
     in of_int (rne (x / q)) * q)"

definition fl64 :: "rat \<Rightarrow> rat" where
  "fl64 = round_binary 53 (- 1022)"

definition fl32 :: "rat \<Rightarrow> rat" where
  "fl32 = round_binary 24 (- 126)"

definition is_double :: "rat \<Rightarrow> bool" where
  "is_double x \<longleftrightarrow> fl64 x = x \<and> \<bar>x\<bar> < 2 ^ 1024"

text \<open>A decimal literal of the source denotes the double nearest to it.\<close>

definition lit :: "rat \<Rightarrow> rat" where
  "lit x = fl64 x"

definition js_mul :: "rat \<Rightarrow> rat \<Rightarrow> rat" where
  "js_mul x y = fl64 (x * y)"

definition js_add :: "rat \<Rightarrow> rat \<Rightarrow> rat" where
  "js_add x y = fl64 (x + y)"

text \<open>\<^verbatim>\<open>Math.floor\<close>; the integer is the value of the double it returns.\<close>

definition Math_floor :: "rat \<Rightarrow> int" where
  "Math_floor x = \<lfloor>x\<rfloor>"

subsection \<open>Values, objects and the world\<close>

datatype jsval = Undefined | Str string | Num rat

type_synonym object = "(string \<times> jsval) list"

type_synonym byte = "8 word"

text \<open>Reading a property that an object does not have gives \<^verbatim>\<open>undefined\<close>.\<close>

definition get_prop :: "object \<Rightarrow> string \<Rightarrow> jsval" where
  "get_prop obj k = (case map_of obj k of Some v \<Rightarrow> v | None \<Rightarrow> Undefined)"

text \<open>Indexing an array of strings outside its bounds gives \<^verbatim>\<open>undefined\<close>.\<close>

definition array_get :: "string list \<Rightarrow> int \<Rightarrow> jsval" where
  "array_get xs i = (if 0 \<le> i \<and> i < int (length xs) then Str (xs ! nat i) else Undefined)"

text \<open>
  \<^verbatim>\<open>JSON.stringify\<close> of a flat object: the text is represented by the object it denotes;
  properties whose value is \<^verbatim>\<open>undefined\<close> are left out.
\<close>

definition JSON_stringify :: "object \<Rightarrow> object" where
  "JSON_stringify obj = filter (\<lambda>(k, v). v \<noteq> Undefined) obj"

text \<open>What a \<^verbatim>\<open>catch\<close> block can receive: an \<^verbatim>\<open>Error\<close> with its message, or anything else.\<close>

datatype thrown = ErrorObject string | OtherValue

datatype event =
    ReadFormData
  | ReadArrayBuffer
  | CallPreprocessImage
  | CallMockPrediction
  | ConsoleLog object
  | ConsoleError thrown

record world =
  rng :: "rat stream"
  trace :: "event list"

definition emit :: "event \<Rightarrow> world \<Rightarrow> world" where
  "emit ev w = w\<lparr>trace := trace w @ [ev]\<rparr>"

text \<open>
  \<^verbatim>\<open>Math.random()\<close> delivers the next number of the generator. ECMAScript promises a
  Number that is at least 0 and less than 1: \<open>valid_random\<close>.
\<close>

definition Math_random :: "world \<Rightarrow> rat \<times> world" where
  "Math_random w = (shd (rng w), w\<lparr>rng := stl (rng w)\<rparr>)"

definition valid_random :: "rat \<Rightarrow> bool" where
  "valid_random r \<longleftrightarrow> is_double r \<and> 0 \<le> r \<and> r < 1"

subsection \<open>Constants of the module\<close>

definition corsHeaders :: "(string \<times> string) list" where
  "corsHeaders =
    [(''Access-Control-Allow-Origin'', ''*''),
     (''Access-Control-Allow-Methods'', ''GET, POST, PUT, DELETE, OPTIONS''),
     (''Access-Control-Allow-Headers'', ''Content-Type, Authorization'')]"

definition classNames :: "string list" where
  "classNames =
    [''T-shirt/top'', ''Trouser'', ''Pullover'', ''Dress'', ''Coat'',
     ''Sandal'', ''Shirt'', ''Sneaker'', ''Bag'', ''Ankle boot'']"

subsection \<open>The pipeline functions\<close>

text \<open>
  \<^verbatim>\<open>mockPrediction\<close> never reads \<^verbatim>\<open>imageBuffer\<close>. It calls \<^verbatim>\<open>Math.random()\<close> twice:
  \<^verbatim>\<open>Math.floor(Math.random() * classNames.length)\<close> is the index of the class, and
  \<^verbatim>\<open>0.7 + Math.random() * 0.3\<close> is the confidence.
\<close>

definition mockPrediction :: "byte list \<Rightarrow> world \<Rightarrow> object \<times> world" where
  "mockPrediction imageBuffer w0 =
    (let w1 = emit CallMockPrediction w0;
         (r1, w2) = Math_random w1;
         randomIndex = Math_floor (js_mul r1 (of_nat (length classNames)));
         (r2, w3) = Math_random w2;
         confidence = js_add (lit (7 / 10)) (js_mul r2 (lit (3 / 10)))
     in ([(''predicted_class'', array_get classNames randomIndex),
          (''confidence'', Num confidence)], w3))"

text \<open>
  \<^verbatim>\<open>preprocessImage\<close> never reads \<^verbatim>\<open>imageBuffer\<close> either:
  \<^verbatim>\<open>new Float32Array(784).fill(0.5)\<close> holds 784 times the binary32 value of \<^verbatim>\<open>0.5\<close>.
\<close>

definition preprocessImage :: "byte list \<Rightarrow> world \<Rightarrow> rat list \<times> world" where
  "preprocessImage imageBuffer w0 =
    (let w1 = emit CallPreprocessImage w0
     in (replicate 784 (fl32 (lit (1 / 2))), w1))"

subsection \<open>Requests and responses\<close>

text \<open>
  A request is its method (\<^verbatim>\<open>req.method\<close>, here \<open>req_method\<close>) and what
  \<^verbatim>\<open>await req.formData()\<close> does with its body: the promise rejects (the body is no
  form), or it delivers the form's entries in order. An entry is a file (\<^verbatim>\<open>File\<close>, with
  its declared content type \<^verbatim>\<open>type\<close>, here \<open>ftype\<close>, and its bytes) or a string.
\<close>

record File =
  ftype :: string
  fbytes :: "byte list"

datatype form_entry = FileEntry File | StringEntry string

type_synonym form_data = "(string \<times> form_entry) list"

record request =
  req_method :: string
  formData :: "thrown + form_data"

record response =
  status :: nat
  headers :: "(string \<times> string) list"
  body :: "object option"

text \<open>\<^verbatim>\<open>formData.get(name)\<close>: the first entry of that name, or \<^verbatim>\<open>null\<close>.\<close>

definition FormData_get :: "form_data \<Rightarrow> string \<Rightarrow> form_entry option" where
  "FormData_get fd name = map_of fd name"

definition File_arrayBuffer :: "File \<Rightarrow> world \<Rightarrow> byte list \<times> world" where
  "File_arrayBuffer f w = (fbytes f, emit ReadArrayBuffer w)"

text \<open>
  \<^verbatim>\<open>new Response(JSON.stringify(obj), { status, headers: { ...corsHeaders,
  "Content-Type": "application/json" } })\<close>.
\<close>

definition json_response :: "nat \<Rightarrow> object \<Rightarrow> response" where
  "json_response st obj =
    \<lparr>status = st,
     headers = corsHeaders @ [(''Content-Type'', ''application/json'')],
     body = Some (JSON_stringify obj)\<rparr>"

text \<open>
  The message of the \<^verbatim>\<open>TypeError\<close> that V8 raises for \<^verbatim>\<open>imageFile.type.startsWith\<close>
  when the entry is a string, whose \<^verbatim>\<open>type\<close> is \<^verbatim>\<open>undefined\<close>.
\<close>

definition type_error_message :: string where
  "type_error_message = ''Cannot read properties of undefined (reading 'startsWith')''"

subsection \<open>The handler\<close>

text \<open>
  The body of the \<^verbatim>\<open>try\<close> block: it returns a response (\<open>Inr\<close>) or throws (\<open>Inl\<close>).
  \<^verbatim>\<open>!imageFile\<close> holds for \<^verbatim>\<open>null\<close> and for the empty string. The text written by
  \<^verbatim>\<open>console.log\<close> is represented by the prediction it is formatted from.
\<close>

definition try_block :: "request \<Rightarrow> world \<Rightarrow> (thrown + response) \<times> world" where
  "try_block req w0 =
    (if req_method req \<noteq> ''POST'' then
       (Inr (json_response 405 [(''error'', Str ''Method not allowed'')]), w0)
     else
       let w1 = emit ReadFormData w0 in
       case formData req of
         Inl e \<Rightarrow> (Inl e, w1)
       | Inr fd \<Rightarrow>
          (case FormData_get fd ''image'' of
             None \<Rightarrow>
               (Inr (json_response 400 [(''error'', Str ''No image file provided'')]), w1)
           | Some (StringEntry s) \<Rightarrow>
               if s = [] then
                 (Inr (json_response 400 [(''error'', Str ''No image file provided'')]), w1)
               else (Inl (ErrorObject type_error_message), w1)
           | Some (FileEntry imageFile) \<Rightarrow>
               if \<not> prefix ''image/'' (ftype imageFile) then
                 (Inr (json_response 400
                    [(''error'', Str ''Invalid file type. Please upload an image.'')]), w1)
               else
                 let (imageBuffer, w2) = File_arrayBuffer imageFile w1;
                     (preprocessedImage, w3) = preprocessImage imageBuffer w2;
                     (prediction, w4) = mockPrediction imageBuffer w3;
                     w5 = emit (ConsoleLog prediction) w4
                 in (Inr (json_response 200 prediction), w5)))"

definition catch_block :: "thrown \<Rightarrow> world \<Rightarrow> response \<times> world" where
  "catch_block err w0 =
    (let w1 = emit (ConsoleError err) w0
     in (json_response 500
           [(''error'', Str ''Internal server error''),
            (''message'', Str (case err of ErrorObject m \<Rightarrow> m
                                         | OtherValue \<Rightarrow> ''Unknown error''))], w1))"

definition handler :: "request \<Rightarrow> world \<Rightarrow> response \<times> world" where
  "handler req w0 =
    (if req_method req = ''OPTIONS'' then
       (\<lparr>status = 200, headers = corsHeaders, body = None\<rparr>, w0)
     else
       case try_block req w0 of
         (Inr resp, w1) \<Rightarrow> (resp, w1)
       | (Inl err, w1) \<Rightarrow> catch_block err w1)"

subsection \<open>Concrete inputs\<close>

text \<open>
  The inputs at which the theorems below are evaluated: an image buffer of 784 zero bytes,
  the PNG signature followed by the first bytes of a header chunk that stops short, a
  world whose generator delivers the given numbers and then zeros, and the request of an
  upload of one file under the field name \<^verbatim>\<open>image\<close>.
\<close>

definition zero_image :: "byte list" where
  "zero_image = replicate 784 0"

definition truncated_png :: "byte list" where
  "truncated_png =
    [0x89, 0x50, 0x4E, 0x47, 0x0D, 0x0A, 0x1A, 0x0A, 0x00, 0x00, 0x00, 0x0D, 0x49, 0x48]"

definition world_of :: "rat list \<Rightarrow> world" where
  "world_of rs = \<lparr>rng = rs @- sconst 0, trace = []\<rparr>"

definition upload :: "string \<Rightarrow> byte list \<Rightarrow> request" where
  "upload ty bs =
    \<lparr>req_method = ''POST'', formData = Inr [(''image'', FileEntry \<lparr>ftype = ty, fbytes = bs\<rparr>)]\<rparr>"

section \<open>Rounding\<close>

lemma rne_le: "t \<le> of_int n \<Longrightarrow> rne t \<le> n"
proof -
  assume h: "t \<le> of_int n"
  show ?thesis
  proof (cases "t = of_int n")
    case True
    then show ?thesis by (simp add: rne_def)
  next
    case False
    with h have "t < of_int n" by simp
    then have "\<lfloor>t\<rfloor> < n" by (simp add: floor_less_iff)
    then show ?thesis by (simp add: rne_def Let_def)
  qed
qed

lemma rne_ge: "of_int n \<le> t \<Longrightarrow> n \<le> rne t"
proof -
  assume "of_int n \<le> t"
  then have "n \<le> \<lfloor>t\<rfloor>" by (simp add: le_floor_iff)
  then show ?thesis by (simp add: rne_def Let_def)
qed

lemma rne_below_half: "t < of_int n - 1 / 2 \<Longrightarrow> rne t \<le> n - 1"
proof -
  assume h: "t < of_int n - 1 / 2"
  then have "t < of_int n" by simp
  then have f: "\<lfloor>t\<rfloor> \<le> n - 1" by (simp add: floor_less_iff)
  show ?thesis
  proof (cases "\<lfloor>t\<rfloor> = n - 1")
    case True
    then have "t - of_int \<lfloor>t\<rfloor> < 1 / 2" using h by simp
    then show ?thesis using True by (simp add: rne_def Let_def)
  next
    case False
    with f have "\<lfloor>t\<rfloor> + 1 \<le> n - 1" by simp
    then show ?thesis by (simp add: rne_def Let_def)
  qed
qed

lemma ilog2_bounds:
  assumes "0 < x"
  shows "2 powi (ilog2 x) \<le> x \<and> x < 2 powi (ilog2 x + 1)"
proof (cases "1 \<le> x")
  case True
  define n where "n = \<lfloor>x\<rfloor>"
  have n: "0 < n" using True by (simp add: n_def)
  have b1: "1 \<le> bitlen n" using n by (simp add: bitlen_alt_def)
  from bitlen_bounds [OF n] have lo: "2 ^ nat (bitlen n - 1) \<le> n" and hi: "n < 2 ^ nat (bitlen n)"
    by simp_all
  have "(of_int (2 ^ nat (bitlen n - 1)) :: rat) \<le> of_int n" using lo by (simp only: of_int_le_iff)
  also have "\<dots> \<le> x" by (simp add: n_def)
  finally have l: "(2::rat) ^ nat (bitlen n - 1) \<le> x" by simp
  have "n + 1 \<le> 2 ^ nat (bitlen n)" using hi by simp
  then have "(of_int (n + 1) :: rat) \<le> of_int (2 ^ nat (bitlen n))" by (simp only: of_int_le_iff)
  then have "(of_int (n + 1) :: rat) \<le> 2 ^ nat (bitlen n)" by simp
  moreover have "x < of_int (n + 1)" unfolding n_def by linarith
  ultimately have u: "x < (2::rat) ^ nat (bitlen n)" by (rule less_le_trans [rotated])
  have e: "ilog2 x = bitlen n - 1" using True by (simp add: ilog2_def n_def)
  show ?thesis using l u b1 by (simp add: e power_int_def)
next
  case False
  define y where "y = 1 / x"
  define n where "n = \<lceil>y\<rceil>"
  have x1: "x < 1" using False by simp
  have y1: "1 < y" using assms x1 by (simp add: y_def)
  have n2: "0 < n - 1" using y1 by (simp add: n_def less_ceiling_iff)
  have b1: "1 \<le> bitlen (n - 1)" using n2 by (simp add: bitlen_alt_def)
  from bitlen_bounds [OF n2]
  have lo: "2 ^ nat (bitlen (n - 1) - 1) \<le> n - 1" and hi: "n - 1 < 2 ^ nat (bitlen (n - 1))"
    by simp_all
  have "(of_int (2 ^ nat (bitlen (n - 1) - 1)) :: rat) \<le> of_int (n - 1)"
    using lo by (simp only: of_int_le_iff)
  also have "\<dots> < y" unfolding n_def by linarith
  finally have l: "(2::rat) ^ nat (bitlen (n - 1) - 1) < y" by simp
  have "n \<le> 2 ^ nat (bitlen (n - 1))" using hi by simp
  then have "(of_int n :: rat) \<le> of_int (2 ^ nat (bitlen (n - 1)))" by (simp only: of_int_le_iff)
  then have "(of_int n :: rat) \<le> 2 ^ nat (bitlen (n - 1))" by simp
  moreover have "y \<le> of_int n" by (simp add: n_def)
  ultimately have u: "y \<le> (2::rat) ^ nat (bitlen (n - 1))" by (rule order_trans [rotated])
  have e: "ilog2 x = - bitlen (n - 1)" using False by (simp add: ilog2_def n_def y_def)
  have xi: "x = 1 / y" using assms by (simp add: y_def)
  have p1: "2 powi (- bitlen (n - 1)) \<le> x"
    using u y1 b1 unfolding xi by (simp add: power_int_def field_simps)
  have "nat (bitlen (n - 1) - 1) = nat (- (1 - bitlen (n - 1)))" by simp
  have p2: "x < 2 powi (- bitlen (n - 1) + 1)"
  proof -
    have "- bitlen (n - 1) + 1 = - (bitlen (n - 1) - 1)" by simp
    moreover have "2 powi (- (bitlen (n - 1) - 1)) = 1 / (2::rat) ^ nat (bitlen (n - 1) - 1)"
      using b1 by (simp add: power_int_minus_divide power_int_def power_one_over)
    moreover have "1 / y < 1 / (2::rat) ^ nat (bitlen (n - 1) - 1)"
      using l by (simp add: frac_less2)
    ultimately show ?thesis unfolding xi by simp
  qed
  show ?thesis using p1 p2 by (simp add: e)
qed

lemma ilog2_unique:
  assumes "0 < x" "2 powi e \<le> x" "x < 2 powi (e + 1)"
  shows "ilog2 x = e"
proof -
  from ilog2_bounds [OF assms(1)]
  have a: "2 powi (ilog2 x) \<le> x" and b: "x < 2 powi (ilog2 x + 1)" by simp_all
  have "(2::rat) powi e < 2 powi (ilog2 x + 1)" using assms(2) b by simp
  then have 1: "e < ilog2 x + 1"
    using power_int_increasing [of "ilog2 x + 1" e "2::rat"] by (cases "e < ilog2 x + 1") auto
  have "(2::rat) powi (ilog2 x) < 2 powi (e + 1)" using a assms(3) by simp
  then have 2: "ilog2 x < e + 1"
    using power_int_increasing [of "e + 1" "ilog2 x" "2::rat"] by (cases "ilog2 x < e + 1") auto
  from 1 2 show ?thesis by simp
qed

lemma fl64_pos:
  "0 < x \<Longrightarrow> fl64 x = of_int (rne (x / 2 powi (max (ilog2 x) (- 1022) - 52)))
      * 2 powi (max (ilog2 x) (- 1022) - 52)"
  by (simp add: fl64_def round_binary_def Let_def)

lemma fl64_zero: "fl64 0 = 0"
  by (simp add: fl64_def round_binary_def)

lemma fl64_in_binade:
  assumes "0 < x" "2 powi e \<le> x" "x < 2 powi (e + 1)" "- 1022 \<le> e"
  shows "fl64 x = of_int (rne (x / 2 powi (e - 52))) * 2 powi (e - 52)"
proof -
  have "ilog2 x = e" using assms(1-3) by (rule ilog2_unique)
  then show ?thesis using assms(1,4) by (simp add: fl64_pos max_def)
qed

lemma fl64_nonneg: "0 \<le> x \<Longrightarrow> 0 \<le> fl64 x"
proof (cases "x = 0")
  case True
  then show ?thesis by (simp add: fl64_zero)
next
  case False
  assume "0 \<le> x"
  with False have x: "0 < x" by simp
  define q :: rat where "q = 2 powi (max (ilog2 x) (- 1022) - 52)"
  have q: "0 < q" by (simp add: q_def)
  have "of_int 0 \<le> x / q" using x q by simp
  then have "0 \<le> rne (x / q)" by (rule rne_ge)
  then show ?thesis using q by (simp add: fl64_pos [OF x] q_def [symmetric])
qed

lemma fl64_le_pow2:
  assumes x: "0 < x" and le: "x \<le> 2 powi k" and k: "- 1022 \<le> k"
  shows "fl64 x \<le> 2 powi k"
proof -
  define e where "e = max (ilog2 x) (- 1022)"
  define q :: rat where "q = 2 powi (e - 52)"
  have q: "0 < q" by (simp add: q_def)
  from ilog2_bounds [OF x] have "2 powi (ilog2 x) \<le> x" by simp
  with le have "(2::rat) powi (ilog2 x) \<le> 2 powi k" by simp
  then have "ilog2 x \<le> k"
    using power_int_strict_increasing [of k "ilog2 x" "2::rat"] by (cases "ilog2 x \<le> k") auto
  with k have ek: "e \<le> k" by (simp add: e_def)
  have split: "(2::rat) powi k = 2 powi (k - e + 52) * q"
    by (simp add: q_def flip: power_int_add)
  have "(2::rat) powi (k - e + 52) = 2 ^ nat (k - e + 52)"
    using ek by (simp add: power_int_def)
  also have "\<dots> = of_int (2 ^ nat (k - e + 52))" by simp
  finally have int: "(2::rat) powi (k - e + 52) = of_int (2 ^ nat (k - e + 52))" .
  have "x / q \<le> 2 powi (k - e + 52)" using le q by (simp add: split field_simps)
  then have "x / q \<le> of_int (2 ^ nat (k - e + 52))" by (simp only: int)
  then have "rne (x / q) \<le> 2 ^ nat (k - e + 52)" by (rule rne_le)
  then have "(of_int (rne (x / q)) :: rat) \<le> of_int (2 ^ nat (k - e + 52))"
    by (simp only: of_int_le_iff)
  then have "of_int (rne (x / q)) * q \<le> of_int (2 ^ nat (k - e + 52)) * q"
    using q by (simp only: mult_le_cancel_right_pos)
  then show ?thesis
    by (simp only: fl64_pos [OF x] e_def [symmetric] q_def [symmetric] split int)
qed

lemma lit_7_10: "lit (7 / 10) = 6305039478318694 / 2 ^ 53"
  unfolding lit_def by code_simp

lemma lit_3_10: "lit (3 / 10) = 5404319552844595 / 2 ^ 54"
  unfolding lit_def by code_simp

lemma lit_half: "lit (1 / 2) = 1 / 2"
  unfolding lit_def by code_simp

lemma fl32_half: "fl32 (1 / 2) = 1 / 2"
  by code_simp

section \<open>The numbers the mock computes\<close>

lemma powi_neg_numeral: "(2::rat) powi (- numeral k) = 1 / 2 ^ numeral k"
  by (simp add: power_int_minus_divide)

lemma valid_random_le:
  assumes "valid_random r"
  shows "r \<le> 1 - 1 / 2 ^ 53"
proof (cases "r < 1 / 2")
  case True
  then show ?thesis by simp
next
  case False
  from assms have fx: "fl64 r = r" and r1: "r < 1"
    by (simp_all add: valid_random_def is_double_def)
  define n where "n = rne (r / 2 powi (- 1 - 52))"
  have "0 < r" using False by simp
  moreover have "2 powi (- 1) \<le> r" using False by simp
  moreover have "r < 2 powi (- 1 + 1)" using r1 by simp
  ultimately have "fl64 r = of_int n * 2 powi (- 1 - 52)"
    unfolding n_def by (rule fl64_in_binade) simp
  with fx have r: "r = of_int n / 2 ^ 53" by (simp add: powi_neg_numeral)
  with r1 have "(of_int n :: rat) < of_int (2 ^ 53)" by simp
  then have "n < 2 ^ 53" by (simp only: of_int_less_iff)
  then have "n \<le> 2 ^ 53 - 1" by simp
  then have "(of_int n :: rat) \<le> of_int (2 ^ 53 - 1)" by (simp only: of_int_le_iff)
  then show ?thesis unfolding r by (simp add: field_simps)
qed

lemma index_product_bound:
  assumes "valid_random r"
  shows "0 \<le> js_mul r 10 \<and> js_mul r 10 < 10"
proof -
  from assms have r0: "0 \<le> r" and r1: "r < 1" by (simp_all add: valid_random_def)
  have rle: "r \<le> 1 - 1 / 2 ^ 53" using assms by (rule valid_random_le)
  define x where "x = r * 10"
  have x0: "0 \<le> x" using r0 by (simp add: x_def)
  have lo: "0 \<le> fl64 x" using x0 by (rule fl64_nonneg)
  have hi: "fl64 x < 10"
  proof (cases "x < 8")
    case True
    show ?thesis
    proof (cases "x = 0")
      case True
      then show ?thesis by (simp add: fl64_zero)
    next
      case False
      with x0 have "0 < x" by simp
      moreover have "x \<le> 2 powi 3" using True by simp
      ultimately have "fl64 x \<le> 2 powi 3" by (rule fl64_le_pow2) simp
      then show ?thesis by simp
    qed
  next
    case False
    define n where "n = rne (x / 2 powi (3 - 52))"
    have "0 < x" using False by simp
    moreover have "2 powi 3 \<le> x" using False by simp
    moreover have "x < 2 powi (3 + 1)" using r1 by (simp add: x_def)
    ultimately have f: "fl64 x = of_int n * 2 powi (3 - 52)"
      unfolding n_def by (rule fl64_in_binade) simp
    have "x / 2 powi (3 - 52) = x * 2 ^ 49" by (simp add: powi_neg_numeral)
    also have "\<dots> \<le> (10 - 10 / 2 ^ 53) * 2 ^ 49" using rle by (simp add: x_def)
    also have "\<dots> < of_int (10 * 2 ^ 49) - 1 / 2" by simp
    finally have "n \<le> 10 * 2 ^ 49 - 1" unfolding n_def by (rule rne_below_half)
    then have "(of_int n :: rat) \<le> of_int (10 * 2 ^ 49 - 1)" by (simp only: of_int_le_iff)
    then show ?thesis unfolding f by (simp add: powi_neg_numeral field_simps)
  qed
  from lo hi show ?thesis by (simp add: js_mul_def x_def)
qed

lemma scaled_random_bound:
  assumes "valid_random r"
  shows "0 \<le> js_mul r (lit (3 / 10)) \<and> js_mul r (lit (3 / 10)) \<le> 5404319552844594 / 2 ^ 54"
proof -
  from assms have r0: "0 \<le> r" and r1: "r < 1" by (simp_all add: valid_random_def)
  have rle: "r \<le> 1 - 1 / 2 ^ 53" using assms by (rule valid_random_le)
  define x where "x = r * (5404319552844595 / 2 ^ 54)"
  have x0: "0 \<le> x" using r0 by (simp add: x_def)
  have lo: "0 \<le> fl64 x" using x0 by (rule fl64_nonneg)
  have xhi: "x \<le> (1 - 1 / 2 ^ 53) * (5404319552844595 / 2 ^ 54)"
    unfolding x_def using rle by (rule mult_right_mono) simp
  have hi: "fl64 x \<le> 5404319552844594 / 2 ^ 54"
  proof (cases "x < 1 / 4")
    case True
    show ?thesis
    proof (cases "x = 0")
      case True
      then show ?thesis by (simp add: fl64_zero)
    next
      case False
      with x0 have "0 < x" by simp
      moreover have "x \<le> 2 powi (- 2)" using True by (simp add: powi_neg_numeral)
      ultimately have "fl64 x \<le> 2 powi (- 2)" by (rule fl64_le_pow2) simp
      then show ?thesis by (simp add: powi_neg_numeral)
    qed
  next
    case False
    define n where "n = rne (x / 2 powi (- 2 - 52))"
    have "0 < x" using False by simp
    moreover have "2 powi (- 2) \<le> x" using False by (simp add: powi_neg_numeral)
    moreover have "x < 2 powi (- 2 + 1)" using xhi by (simp add: powi_neg_numeral)
    ultimately have f: "fl64 x = of_int n * 2 powi (- 2 - 52)"
      unfolding n_def by (rule fl64_in_binade) simp
    have "x / 2 powi (- 2 - 52) = x * 2 ^ 54" by (simp add: powi_neg_numeral)
    also have "\<dots> \<le> (1 - 1 / 2 ^ 53) * (5404319552844595 / 2 ^ 54) * 2 ^ 54"
      using xhi by (rule mult_right_mono) simp
    also have "\<dots> < of_int 5404319552844595 - 1 / 2" by simp
    finally have "n \<le> 5404319552844595 - 1" unfolding n_def by (rule rne_below_half)
    then have "(of_int n :: rat) \<le> of_int (5404319552844595 - 1)" by (simp only: of_int_le_iff)
    then show ?thesis unfolding f by (simp add: powi_neg_numeral field_simps)
  qed
  from lo hi show ?thesis by (simp add: js_mul_def x_def lit_3_10)
qed

lemma confidence_bounds:
  assumes "valid_random r"
  shows "lit (7 / 10) \<le> js_add (lit (7 / 10)) (js_mul r (lit (3 / 10)))
       \<and> js_add (lit (7 / 10)) (js_mul r (lit (3 / 10))) \<le> 1 - 1 / 2 ^ 53"
proof -
  define p where "p = js_mul r (lit (3 / 10))"
  define s where "s = 6305039478318694 / 2 ^ 53 + p"
  from scaled_random_bound [OF assms]
  have p0: "0 \<le> p" and p1: "p \<le> 5404319552844594 / 2 ^ 54" by (simp_all add: p_def)
  have s0: "6305039478318694 / 2 ^ 53 \<le> s" using p0 by (simp add: s_def)
  have s1: "s \<le> 1 - 1 / 2 ^ 53" using p1 by (simp add: s_def)
  define n where "n = rne (s / 2 powi (- 1 - 52))"
  have "0 < s" using s0 by simp
  moreover have "2 powi (- 1) \<le> s" using s0 by simp
  moreover have "s < 2 powi (- 1 + 1)" using s1 by simp
  ultimately have f: "fl64 s = of_int n * 2 powi (- 1 - 52)"
    unfolding n_def by (rule fl64_in_binade) simp
  have sc: "s / 2 powi (- 1 - 52) = s * 2 ^ 53" by (simp add: powi_neg_numeral)
  have "of_int 6305039478318694 \<le> s * 2 ^ 53" using s0 by (simp add: field_simps)
  then have "6305039478318694 \<le> n" unfolding n_def sc by (rule rne_ge)
  then have a: "(of_int 6305039478318694 :: rat) \<le> of_int n" by (simp only: of_int_le_iff)
  have "s * 2 ^ 53 \<le> of_int (2 ^ 53 - 1)" using s1 by (simp add: field_simps)
  then have "n \<le> 2 ^ 53 - 1" unfolding n_def sc by (rule rne_le)
  then have b: "(of_int n :: rat) \<le> of_int (2 ^ 53 - 1)" by (simp only: of_int_le_iff)
  have "6305039478318694 / 2 ^ 53 \<le> fl64 s" using a unfolding f by (simp add: powi_neg_numeral field_simps)
  moreover have "fl64 s \<le> 1 - 1 / 2 ^ 53" using b unfolding f by (simp add: powi_neg_numeral field_simps)
  ultimately show ?thesis by (simp add: js_add_def lit_7_10 s_def p_def)
qed

lemma valid_random_iff: "valid_random r \<longleftrightarrow> fl64 r = r \<and> 0 \<le> r \<and> r < 1"
proof -
  have "\<bar>r\<bar> < 2 ^ 1024" if "0 \<le> r" and "r < 1"
  proof -
    have "(1::rat) \<le> 2 ^ 1024" by (rule one_le_power) simp
    with that show ?thesis by simp
  qed
  then show ?thesis by (auto simp add: valid_random_def is_double_def)
qed

lemma fl64_fixes_half: "fl64 (1 / 2) = 1 / 2"
  by code_simp

lemma fl64_fixes_quarter: "fl64 (1 / 4) = 1 / 4"
  by code_simp

lemma valid_random_0: "valid_random 0"
  by (simp add: valid_random_iff fl64_zero)

lemma valid_random_half: "valid_random (1 / 2)"
  by (simp add: valid_random_iff fl64_fixes_half)

lemma valid_random_quarter: "valid_random (1 / 4)"
  by (simp add: valid_random_iff fl64_fixes_quarter)

lemma index_at_0: "Math_floor (js_mul 0 10) = 0"
  by code_simp

lemma index_at_half: "Math_floor (js_mul (1 / 2) 10) = 5"
  by code_simp

lemma index_at_quarter: "Math_floor (js_mul (1 / 4) 10) = 2"
  by code_simp

lemma confidence_at_0:
  "js_add (lit (7 / 10)) (js_mul 0 (lit (3 / 10))) = 3152519739159347 / 4503599627370496"
  by code_simp

lemma confidence_at_half:
  "js_add (lit (7 / 10)) (js_mul (1 / 2) (lit (3 / 10))) = 7656119366529843 / 9007199254740992"
  by code_simp

lemma confidence_at_quarter:
  "js_add (lit (7 / 10)) (js_mul (1 / 4) (lit (3 / 10))) = 1745144855606067 / 2251799813685248"
  by code_simp

lemma length_classNames: "length classNames = 10"
  by (simp add: classNames_def)

lemma mockPrediction_result:
  "fst (mockPrediction imageBuffer w) =
     [(''predicted_class'', array_get classNames (Math_floor (js_mul (shd (rng w)) 10))),
      (''confidence'', Num (js_add (lit (7 / 10)) (js_mul (shd (stl (rng w))) (lit (3 / 10)))))]"
  by (simp add: mockPrediction_def Math_random_def emit_def Let_def length_classNames)

lemma mockPrediction_world:
  "snd (mockPrediction imageBuffer w) =
     \<lparr>rng = stl (stl (rng w)), trace = trace w @ [CallMockPrediction]\<rparr>"
  by (simp add: mockPrediction_def Math_random_def emit_def Let_def)

lemma array_get_classNames:
  "0 \<le> i \<Longrightarrow> i < 10 \<Longrightarrow> array_get classNames i \<in> Str ` set classNames"
  by (simp add: array_get_def length_classNames)

lemma predicted_class_valid:
  assumes "valid_random r"
  shows "array_get classNames (Math_floor (js_mul r 10)) \<in> Str ` set classNames"
proof -
  from index_product_bound [OF assms]
  have "0 \<le> js_mul r 10" and "js_mul r 10 < 10" by simp_all
  then have "0 \<le> Math_floor (js_mul r 10)" and "Math_floor (js_mul r 10) < 10"
    by (simp_all add: Math_floor_def floor_less_iff)
  then show ?thesis by (rule array_get_classNames)
qed

section \<open>The branches of the pipeline and of the handler\<close>

lemma preprocessImage_result: "fst (preprocessImage imageBuffer w) = replicate 784 (1 / 2)"
  by (simp add: preprocessImage_def Let_def lit_half fl32_half)

lemma preprocessImage_world:
  "snd (preprocessImage imageBuffer w) = emit CallPreprocessImage w"
  by (simp add: preprocessImage_def Let_def)

lemma JSON_stringify_error [simp]:
  "JSON_stringify [(k, Str s)] = [(k, Str s)]"
  by (simp add: JSON_stringify_def)

lemma handler_OPTIONS:
  "req_method req = ''OPTIONS'' \<Longrightarrow>
     handler req w = (\<lparr>status = 200, headers = corsHeaders, body = None\<rparr>, w)"
  by (simp add: handler_def)

lemma handler_not_POST:
  "req_method req \<noteq> ''OPTIONS'' \<Longrightarrow> req_method req \<noteq> ''POST'' \<Longrightarrow>
     handler req w = (json_response 405 [(''error'', Str ''Method not allowed'')], w)"
  by (simp add: handler_def try_block_def)

lemma handler_formData_throws:
  "req_method req = ''POST'' \<Longrightarrow> formData req = Inl err \<Longrightarrow>
     handler req w = catch_block err (emit ReadFormData w)"
  by (simp add: handler_def try_block_def)

lemma handler_no_image:
  "req_method req = ''POST'' \<Longrightarrow> formData req = Inr fd \<Longrightarrow> FormData_get fd ''image'' = None \<Longrightarrow>
     handler req w =
       (json_response 400 [(''error'', Str ''No image file provided'')], emit ReadFormData w)"
  by (simp add: handler_def try_block_def)

lemma handler_string_entry:
  "req_method req = ''POST'' \<Longrightarrow> formData req = Inr fd \<Longrightarrow>
   FormData_get fd ''image'' = Some (StringEntry s) \<Longrightarrow>
     handler req w =
       (if s = [] then
          (json_response 400 [(''error'', Str ''No image file provided'')], emit ReadFormData w)
        else catch_block (ErrorObject type_error_message) (emit ReadFormData w))"
  by (simp add: handler_def try_block_def)

lemma handler_not_image_type:
  "req_method req = ''POST'' \<Longrightarrow> formData req = Inr fd \<Longrightarrow>
   FormData_get fd ''image'' = Some (FileEntry f) \<Longrightarrow> \<not> prefix ''image/'' (ftype f) \<Longrightarrow>
     handler req w =
       (json_response 400 [(''error'', Str ''Invalid file type. Please upload an image.'')],
        emit ReadFormData w)"
  by (simp add: handler_def try_block_def)

lemma handler_image:
  "req_method req = ''POST'' \<Longrightarrow> formData req = Inr fd \<Longrightarrow>
   FormData_get fd ''image'' = Some (FileEntry f) \<Longrightarrow> prefix ''image/'' (ftype f) \<Longrightarrow>
     handler req w =
       (json_response 200 (fst (mockPrediction (fbytes f) w)),
        \<lparr>rng = stl (stl (rng w)),
         trace = trace w @ [ReadFormData, ReadArrayBuffer, CallPreprocessImage,
           CallMockPrediction, ConsoleLog (fst (mockPrediction (fbytes f) w))]\<rparr>)"
  by (simp add: handler_def try_block_def File_arrayBuffer_def preprocessImage_def
      Let_def split_def mockPrediction_result mockPrediction_world emit_def)

text \<open>The branches of the handler, one per response it can build.\<close>

lemma handler_cases:
  obtains
    (options) "req_method req = ''OPTIONS''"
  | (not_post) "req_method req \<noteq> ''OPTIONS''" "req_method req \<noteq> ''POST''"
  | (throws) err where "req_method req = ''POST''" "formData req = Inl err"
  | (no_image) fd where "req_method req = ''POST''" "formData req = Inr fd"
      "FormData_get fd ''image'' = None"
  | (string_entry) fd s where "req_method req = ''POST''" "formData req = Inr fd"
      "FormData_get fd ''image'' = Some (StringEntry s)"
  | (not_image_type) fd f where "req_method req = ''POST''" "formData req = Inr fd"
      "FormData_get fd ''image'' = Some (FileEntry f)" "\<not> prefix ''image/'' (ftype f)"
  | (image) fd f where "req_method req = ''POST''" "formData req = Inr fd"
      "FormData_get fd ''image'' = Some (FileEntry f)" "prefix ''image/'' (ftype f)"
proof (cases "req_method req = ''OPTIONS''")
  case True
  then show ?thesis by (rule options)
next
  case no: False
  show ?thesis
  proof (cases "req_method req = ''POST''")
    case False
    with no show ?thesis by (rule not_post)
  next
    case post: True
    show ?thesis
    proof (cases "formData req")
      case (Inl err)
      with post show ?thesis by (rule throws)
    next
      case (Inr fd)
      show ?thesis
      proof (cases "FormData_get fd ''image''")
        case None
        with post Inr show ?thesis by (rule no_image)
      next
        case (Some entry)
        show ?thesis
        proof (cases entry)
          case (StringEntry s)
          with post Inr Some show ?thesis by (auto intro: string_entry)
        next
          case (FileEntry f)
          with post Inr Some show ?thesis
            by (cases "prefix ''image/'' (ftype f)") (auto intro: not_image_type image)
        qed
      qed
    qed
  qed
qed

lemma handler_headers:
  "headers (fst (handler req w)) = corsHeaders
   \<or> headers (fst (handler req w)) = corsHeaders @ [(''Content-Type'', ''application/json'')]"
  by (cases req rule: handler_cases)
    (simp_all add: handler_OPTIONS handler_not_POST handler_formData_throws handler_no_image
      handler_string_entry handler_not_image_type handler_image json_response_def
      catch_block_def Let_def)

lemma JSON_stringify_prediction:
  "cls \<noteq> Undefined \<Longrightarrow>
     JSON_stringify [(''predicted_class'', cls), (''confidence'', Num c)]
       = [(''predicted_class'', cls), (''confidence'', Num c)]"
  by (simp add: JSON_stringify_def)

lemma upload_fields:
  "req_method (upload ty bs) = ''POST''"
  "formData (upload ty bs) = Inr [(''image'', FileEntry \<lparr>ftype = ty, fbytes = bs\<rparr>)]"
  "FormData_get [(''image'', FileEntry \<lparr>ftype = ty, fbytes = bs\<rparr>)] ''image''
     = Some (FileEntry \<lparr>ftype = ty, fbytes = bs\<rparr>)"
  by (simp_all add: upload_def FormData_get_def)

lemma prefix_image_png: "prefix ''image/'' ''image/png''"
  by simp

lemma handler_upload_image_png:
  "handler (upload ''image/png'' bs) w =
     (json_response 200 (fst (mockPrediction bs w)),
      \<lparr>rng = stl (stl (rng w)),
       trace = trace w @ [ReadFormData, ReadArrayBuffer, CallPreprocessImage,
         CallMockPrediction, ConsoleLog (fst (mockPrediction bs w))]\<rparr>)"
  using handler_image [OF upload_fields(1) upload_fields(2) upload_fields(3), where w = w] prefix_image_png
  by simp

lemma handler_rng:
  "rng (snd (handler req w)) = rng w \<or> rng (snd (handler req w)) = stl (stl (rng w))"
  by (cases req rule: handler_cases)
    (simp_all add: handler_OPTIONS handler_not_POST handler_formData_throws handler_no_image
      handler_string_entry handler_not_image_type handler_image catch_block_def emit_def
      Let_def)

lemma handler_response_draws:
  assumes "shd (rng w) = shd (rng w')" and "shd (stl (rng w)) = shd (stl (rng w'))"
  shows "fst (handler req w) = fst (handler req w')"
  using assms
  by (cases req rule: handler_cases)
    (simp_all add: handler_OPTIONS handler_not_POST handler_formData_throws handler_no_image
      handler_string_entry handler_not_image_type handler_image catch_block_def
      Let_def mockPrediction_result)

section \<open>Properties of the mock prediction\<close>

text \<open>
  Claim C3: for every image buffer, when the two numbers drawn from \<^verbatim>\<open>Math.random()\<close>
  are doubles in [0, 1), the predicted class is one of the ten class names and the
  confidence \<open>c\<close> lies in [0.7, 1.0), hence in [0, 1]. The bound 0.7 is the literal of the
  source, the double nearest to 7/10, which is the smallest confidence the code can
  return (at the draw 0); it lies below the rational 7/10 by less than \<open>10\<^sup>-\<^sup>1\<^sup>6\<close>. The
  upper bound is strict although \<^verbatim>\<open>0.7 + 0.3\<close> is \<^verbatim>\<open>1\<close> in binary64: the largest draw,
  \<open>1 - 2\<^sup>-\<^sup>5\<^sup>3\<close>, gives the confidence \<open>1 - 2\<^sup>-\<^sup>5\<^sup>3\<close>.
\<close>

theorem mockPrediction_range:
  assumes "valid_random (shd (rng w))" and "valid_random (shd (stl (rng w)))"
  shows "length classNames = 10
    \<and> get_prop (fst (mockPrediction imageBuffer w)) ''predicted_class'' \<in> Str ` set classNames
    \<and> (\<exists>c. get_prop (fst (mockPrediction imageBuffer w)) ''confidence'' = Num c
          \<and> lit (7 / 10) \<le> c \<and> c < 1 \<and> 0 \<le> c \<and> c \<le> 1
          \<and> 7 / 10 - 1 / 10 ^ 16 < c)"
proof -
  let ?c = "js_add (lit (7 / 10)) (js_mul (shd (stl (rng w))) (lit (3 / 10)))"
  from confidence_bounds [OF assms(2)]
  have lo: "lit (7 / 10) \<le> ?c" and hi: "?c \<le> 1 - 1 / 2 ^ 53" by simp_all
  have pos: "0 \<le> lit (7 / 10)" by (simp add: lit_7_10)
  have near: "7 / 10 - 1 / 10 ^ 16 < lit (7 / 10)" by (simp add: lit_7_10)
  have c: "lit (7 / 10) \<le> ?c \<and> ?c < 1 \<and> 0 \<le> ?c \<and> ?c \<le> 1
      \<and> 7 / 10 - 1 / 10 ^ 16 < ?c"
    using lo hi pos near by simp
  have cls: "get_prop (fst (mockPrediction imageBuffer w)) ''predicted_class''
      \<in> Str ` set classNames"
    using predicted_class_valid [OF assms(1)] by (simp add: mockPrediction_result get_prop_def)
  have "get_prop (fst (mockPrediction imageBuffer w)) ''confidence'' = Num ?c"
    by (simp add: mockPrediction_result get_prop_def)
  with c cls length_classNames show ?thesis by blast
qed

theorem mockPrediction_range_witness:
  "valid_random (shd (rng (world_of [1 / 2, 1 / 4])))
   \<and> valid_random (shd (stl (rng (world_of [1 / 2, 1 / 4]))))
   \<and> get_prop (fst (mockPrediction zero_image (world_of [1 / 2, 1 / 4]))) ''predicted_class''
       \<in> Str ` set classNames
   \<and> get_prop (fst (mockPrediction zero_image (world_of [1 / 2, 1 / 4]))) ''predicted_class''
       = Str ''Sandal''
   \<and> get_prop (fst (mockPrediction zero_image (world_of [1 / 2, 1 / 4]))) ''confidence''
       = Num (1745144855606067 / 2251799813685248)"
proof -
  have h1: "valid_random (shd (rng (world_of [1 / 2, 1 / 4])))"
    by (simp add: world_of_def valid_random_half)
  have h2: "valid_random (shd (stl (rng (world_of [1 / 2, 1 / 4]))))"
    by (simp add: world_of_def valid_random_quarter)
  have e: "fst (mockPrediction zero_image (world_of [1 / 2, 1 / 4])) =
      [(''predicted_class'', Str ''Sandal''),
       (''confidence'', Num (1745144855606067 / 2251799813685248))]"
    by (simp add: mockPrediction_result world_of_def index_at_half confidence_at_quarter
        array_get_def classNames_def)
  from mockPrediction_range [OF h1 h2, of zero_image] h1 h2 e show ?thesis
    by (simp add: get_prop_def)
qed

text \<open>
  Claim C1 says that two runs of the prediction on the same input return the same class
  and the same confidence. The code does not: the first run on the all-zero image in a
  world whose generator delivers 0, 0, 1/2, 1/2 returns \<^verbatim>\<open>T-shirt/top\<close> with the
  confidence of the double 0.7, and the second run, on the same image, in the world the
  first run leaves behind, returns \<^verbatim>\<open>Sandal\<close> with another confidence.
\<close>

theorem mockPrediction_not_deterministic:
  "fst (mockPrediction zero_image (world_of [0, 0, 1 / 2, 1 / 2]))
     = [(''predicted_class'', Str ''T-shirt/top''),
        (''confidence'', Num (3152519739159347 / 4503599627370496))]
   \<and> fst (mockPrediction zero_image
          (snd (mockPrediction zero_image (world_of [0, 0, 1 / 2, 1 / 2]))))
     = [(''predicted_class'', Str ''Sandal''),
        (''confidence'', Num (7656119366529843 / 9007199254740992))]
   \<and> fst (mockPrediction zero_image (world_of [0, 0, 1 / 2, 1 / 2]))
     \<noteq> fst (mockPrediction zero_image
          (snd (mockPrediction zero_image (world_of [0, 0, 1 / 2, 1 / 2]))))"
  by (simp add: mockPrediction_result mockPrediction_world world_of_def index_at_0
      index_at_half confidence_at_0 confidence_at_half array_get_def classNames_def)

text \<open>
  Claim C1, as the code has it: the result of \<^verbatim>\<open>mockPrediction\<close> is determined by the
  two numbers that \<^verbatim>\<open>Math.random()\<close> delivers during the call, and by nothing else. Two
  runs that draw the same two numbers return the same class and the same confidence,
  whatever the image bytes, the rest of the generator and the trace are.
\<close>

theorem mockPrediction_determined_by_draws:
  assumes "shd (rng w) = shd (rng w')" and "shd (stl (rng w)) = shd (stl (rng w'))"
  shows "fst (mockPrediction imageBuffer w) = fst (mockPrediction imageBuffer' w')"
  using assms by (simp add: mockPrediction_result)

theorem mockPrediction_determined_by_draws_witness:
  "shd (rng (world_of [1 / 2, 1 / 4])) = shd (rng (world_of [1 / 2, 1 / 4, 1 / 2]))
   \<and> shd (stl (rng (world_of [1 / 2, 1 / 4]))) = shd (stl (rng (world_of [1 / 2, 1 / 4, 1 / 2])))
   \<and> fst (mockPrediction zero_image (world_of [1 / 2, 1 / 4]))
       = fst (mockPrediction truncated_png (world_of [1 / 2, 1 / 4, 1 / 2]))"
proof -
  have h1: "shd (rng (world_of [1 / 2, 1 / 4])) = shd (rng (world_of [1 / 2, 1 / 4, 1 / 2]))"
    by (simp add: world_of_def)
  have h2: "shd (stl (rng (world_of [1 / 2, 1 / 4])))
      = shd (stl (rng (world_of [1 / 2, 1 / 4, 1 / 2])))"
    by (simp add: world_of_def)
  from mockPrediction_determined_by_draws [OF h1 h2, of zero_image truncated_png] h1 h2
  show ?thesis by simp
qed

text \<open>
  Claim C6 says that the prediction returns per-class probabilities that sum to 1, that
  the predicted class is the entry of maximal probability and that the confidence is that
  maximum. The object the mock returns has the two properties \<^verbatim>\<open>predicted_class\<close> and
  \<^verbatim>\<open>confidence\<close> and no probabilities. Nor are its confidences the maxima of one
  distribution over the classes: two successive runs on the all-zero image return
  \<^verbatim>\<open>Pullover\<close> and \<^verbatim>\<open>Sandal\<close> with confidences whose sum exceeds \<open>1 + 10\<^sup>-\<^sup>6\<close>.
\<close>

theorem mockPrediction_no_probabilities:
  "fst (mockPrediction zero_image (world_of [1 / 4, 1 / 2, 1 / 2, 0]))
     = [(''predicted_class'', Str ''Pullover''),
        (''confidence'', Num (7656119366529843 / 9007199254740992))]
   \<and> fst (mockPrediction zero_image
          (snd (mockPrediction zero_image (world_of [1 / 4, 1 / 2, 1 / 2, 0]))))
     = [(''predicted_class'', Str ''Sandal''),
        (''confidence'', Num (3152519739159347 / 4503599627370496))]
   \<and> get_prop (fst (mockPrediction zero_image (world_of [1 / 4, 1 / 2, 1 / 2, 0])))
       ''perClassProbabilities'' = Undefined
   \<and> (1::rat) + 1 / 10 ^ 6
       < 7656119366529843 / 9007199254740992 + 3152519739159347 / 4503599627370496"
  by (simp add: mockPrediction_result mockPrediction_world world_of_def index_at_quarter
      index_at_half confidence_at_0 confidence_at_half array_get_def classNames_def
      get_prop_def)

text \<open>
  Claim C6, as the code has it: the mock returns an object with exactly the properties
  \<^verbatim>\<open>predicted_class\<close> and \<^verbatim>\<open>confidence\<close>. The class is chosen by the first number drawn
  from \<^verbatim>\<open>Math.random()\<close> alone and the confidence by the second alone, both independently
  of the image: the confidence is not derived from the class or from any probabilities.
\<close>

theorem mockPrediction_result_shape:
  "map fst (fst (mockPrediction imageBuffer w)) = [''predicted_class'', ''confidence'']
   \<and> (shd (rng w) = shd (rng w') \<longrightarrow>
        get_prop (fst (mockPrediction imageBuffer w)) ''predicted_class''
          = get_prop (fst (mockPrediction imageBuffer' w')) ''predicted_class'')
   \<and> (shd (stl (rng w)) = shd (stl (rng w')) \<longrightarrow>
        get_prop (fst (mockPrediction imageBuffer w)) ''confidence''
          = get_prop (fst (mockPrediction imageBuffer' w')) ''confidence'')"
  by (simp add: mockPrediction_result get_prop_def)

theorem mockPrediction_result_shape_witness:
  "shd (rng (world_of [1 / 2, 0])) = shd (rng (world_of [1 / 2, 1 / 2]))
   \<and> get_prop (fst (mockPrediction zero_image (world_of [1 / 2, 0]))) ''predicted_class''
       = get_prop (fst (mockPrediction zero_image (world_of [1 / 2, 1 / 2]))) ''predicted_class''
   \<and> get_prop (fst (mockPrediction zero_image (world_of [1 / 2, 0]))) ''confidence''
       \<noteq> get_prop (fst (mockPrediction zero_image (world_of [1 / 2, 1 / 2]))) ''confidence''
   \<and> shd (stl (rng (world_of [0, 1 / 2]))) = shd (stl (rng (world_of [1 / 2, 1 / 2])))
   \<and> get_prop (fst (mockPrediction zero_image (world_of [0, 1 / 2]))) ''confidence''
       = get_prop (fst (mockPrediction zero_image (world_of [1 / 2, 1 / 2]))) ''confidence''
   \<and> get_prop (fst (mockPrediction zero_image (world_of [0, 1 / 2]))) ''predicted_class''
       \<noteq> get_prop (fst (mockPrediction zero_image (world_of [1 / 2, 1 / 2]))) ''predicted_class''"
proof -
  have h1: "shd (rng (world_of [1 / 2, 0])) = shd (rng (world_of [1 / 2, 1 / 2]))"
    by (simp add: world_of_def)
  have h2: "shd (stl (rng (world_of [0, 1 / 2]))) = shd (stl (rng (world_of [1 / 2, 1 / 2])))"
    by (simp add: world_of_def)
  have d1: "get_prop (fst (mockPrediction zero_image (world_of [1 / 2, 0]))) ''confidence''
      \<noteq> get_prop (fst (mockPrediction zero_image (world_of [1 / 2, 1 / 2]))) ''confidence''"
    by (simp add: mockPrediction_result world_of_def get_prop_def confidence_at_0
        confidence_at_half)
  have d2: "get_prop (fst (mockPrediction zero_image (world_of [0, 1 / 2]))) ''predicted_class''
      \<noteq> get_prop (fst (mockPrediction zero_image (world_of [1 / 2, 1 / 2]))) ''predicted_class''"
    by (simp add: mockPrediction_result world_of_def get_prop_def index_at_0 index_at_half
        array_get_def classNames_def)
  from mockPrediction_result_shape
      [where w = "world_of [1 / 2, 0]" and w' = "world_of [1 / 2, 1 / 2]"
         and imageBuffer = zero_image and imageBuffer' = zero_image]
    mockPrediction_result_shape
      [where w = "world_of [0, 1 / 2]" and w' = "world_of [1 / 2, 1 / 2]"
         and imageBuffer = zero_image and imageBuffer' = zero_image]
    h1 h2 d1 d2
  show ?thesis by simp
qed

section \<open>Properties of the preprocessing\<close>

text \<open>
  Claim C4: for every image buffer, the feature vector that \<^verbatim>\<open>preprocessImage\<close> returns
  has exactly 784 elements and each of them lies in the closed interval [0, 1].
\<close>

theorem preprocessImage_shape:
  "length (fst (preprocessImage imageBuffer w)) = 784
   \<and> (\<forall>x \<in> set (fst (preprocessImage imageBuffer w)). 0 \<le> x \<and> x \<le> 1)"
  by (simp add: preprocessImage_result)

theorem preprocessImage_shape_witness:
  "1 / 2 \<in> set (fst (preprocessImage truncated_png (world_of [])))
   \<and> length (fst (preprocessImage truncated_png (world_of []))) = 784
   \<and> (0::rat) \<le> 1 / 2 \<and> (1 / 2 :: rat) \<le> 1"
  using preprocessImage_shape [of truncated_png "world_of []"]
  by (simp add: preprocessImage_result)

text \<open>
  Claim C5: \<^verbatim>\<open>preprocessImage\<close> returns the same feature vector for the same buffer in
  every world, in particular when it is called a second time in the world its first call
  leaves behind; it draws no random number.
\<close>

theorem preprocessImage_deterministic:
  "fst (preprocessImage imageBuffer w) = fst (preprocessImage imageBuffer w')
   \<and> fst (preprocessImage imageBuffer (snd (preprocessImage imageBuffer w)))
       = fst (preprocessImage imageBuffer w)
   \<and> rng (snd (preprocessImage imageBuffer w)) = rng w"
  by (simp add: preprocessImage_result preprocessImage_world emit_def)

section \<open>Properties of the handler\<close>

text \<open>
  Claim C2 says that an input whose decoding fails, such as a PNG signature with a
  truncated body, gives a typed error and never a prediction label. The handler decodes
  nothing: the truncated PNG, uploaded as \<^verbatim>\<open>image/png\<close>, is answered with status 200 and
  the label \<^verbatim>\<open>Sandal\<close> when the generator delivers 1/2 and 1/4.
\<close>

theorem handler_truncated_png_predicts:
  "status (fst (handler (upload ''image/png'' truncated_png) (world_of [1 / 2, 1 / 4]))) = 200
   \<and> body (fst (handler (upload ''image/png'' truncated_png) (world_of [1 / 2, 1 / 4])))
       = Some [(''predicted_class'', Str ''Sandal''),
               (''confidence'', Num (1745144855606067 / 2251799813685248))]"
  by (simp add: handler_upload_image_png json_response_def mockPrediction_result world_of_def
      index_at_half confidence_at_quarter array_get_def classNames_def JSON_stringify_def)

text \<open>
  Claim C2, as the code has it: for every POST whose \<^verbatim>\<open>image\<close> field is a file with a
  declared content type that starts with \<^verbatim>\<open>image/\<close>, whatever the bytes of the file, the
  handler answers with status 200 and the prediction of the mock, whose class is one of
  the ten class names when \<^verbatim>\<open>Math.random()\<close> delivers a double in [0, 1). The body is
  the prediction for any other bytes too (\<open>anyBytes\<close>): the bytes of the file have no
  influence, so no content can make the handler report a decoding error.
\<close>

theorem handler_image_type_always_predicts:
  assumes "req_method req = ''POST''" and "formData req = Inr fd"
    and "FormData_get fd ''image'' = Some (FileEntry f)" and "prefix ''image/'' (ftype f)"
    and "valid_random (shd (rng w))"
  shows "status (fst (handler req w)) = 200
    \<and> body (fst (handler req w)) = Some (fst (mockPrediction anyBytes w))
    \<and> get_prop (fst (mockPrediction anyBytes w)) ''predicted_class'' \<in> Str ` set classNames"
proof -
  let ?cls = "array_get classNames (Math_floor (js_mul (shd (rng w)) 10))"
  have cls: "?cls \<in> Str ` set classNames" using assms(5) by (rule predicted_class_valid)
  then have "?cls \<noteq> Undefined" by auto
  then have "JSON_stringify (fst (mockPrediction (fbytes f) w))
      = fst (mockPrediction anyBytes w)"
    by (simp add: mockPrediction_result JSON_stringify_prediction)
  then show ?thesis
    using cls by (simp add: handler_image [OF assms(1-4)] json_response_def)
      (simp add: mockPrediction_result get_prop_def)
qed

theorem handler_image_type_always_predicts_witness:
  "req_method (upload ''image/png'' truncated_png) = ''POST''
   \<and> formData (upload ''image/png'' truncated_png)
       = Inr [(''image'', FileEntry \<lparr>ftype = ''image/png'', fbytes = truncated_png\<rparr>)]
   \<and> prefix ''image/'' ''image/png''
   \<and> valid_random (shd (rng (world_of [1 / 4, 1 / 2])))
   \<and> status (fst (handler (upload ''image/png'' truncated_png) (world_of [1 / 4, 1 / 2]))) = 200
   \<and> body (fst (handler (upload ''image/png'' truncated_png) (world_of [1 / 4, 1 / 2])))
       = Some (fst (mockPrediction [] (world_of [1 / 4, 1 / 2])))
   \<and> get_prop (fst (mockPrediction [] (world_of [1 / 4, 1 / 2]))) ''predicted_class''
       = Str ''Pullover''"
proof -
  have h5: "valid_random (shd (rng (world_of [1 / 4, 1 / 2])))"
    by (simp add: world_of_def valid_random_quarter)
  have h4: "prefix ''image/'' (ftype \<lparr>ftype = ''image/png'', fbytes = truncated_png\<rparr>)"
    by simp
  have e: "get_prop (fst (mockPrediction [] (world_of [1 / 4, 1 / 2]))) ''predicted_class''
      = Str ''Pullover''"
    by (simp add: mockPrediction_result world_of_def index_at_quarter get_prop_def
        array_get_def classNames_def)
  from handler_image_type_always_predicts
    [OF upload_fields(1) upload_fields(2) upload_fields(3) h4 h5, where anyBytes = "[]"]
    h5 e upload_fields [of "''image/png''" truncated_png]
  show ?thesis by simp
qed

text \<open>
  Claim C7: when the uploaded file of a POST declares a content type that does not start
  with \<^verbatim>\<open>image/\<close>, the handler answers with status 400 and the message of the file type
  check. It has then read the form data and done nothing else: neither
  \<^verbatim>\<open>preprocessImage\<close> nor \<^verbatim>\<open>mockPrediction\<close> was called, and no random number was
  drawn.
\<close>

theorem handler_rejects_non_image:
  assumes "req_method req = ''POST''" and "formData req = Inr fd"
    and "FormData_get fd ''image'' = Some (FileEntry f)"
    and "\<not> prefix ''image/'' (ftype f)"
  shows "status (fst (handler req w)) = 400
    \<and> body (fst (handler req w))
        = Some [(''error'', Str ''Invalid file type. Please upload an image.'')]
    \<and> rng (snd (handler req w)) = rng w
    \<and> trace (snd (handler req w)) = trace w @ [ReadFormData]"
  by (simp add: handler_not_image_type [OF assms] json_response_def emit_def)

theorem handler_rejects_non_image_witness:
  "req_method (upload ''text/plain'' truncated_png) = ''POST''
   \<and> formData (upload ''text/plain'' truncated_png)
       = Inr [(''image'', FileEntry \<lparr>ftype = ''text/plain'', fbytes = truncated_png\<rparr>)]
   \<and> \<not> prefix ''image/'' ''text/plain''
   \<and> status (fst (handler (upload ''text/plain'' truncated_png) (world_of [1 / 2]))) = 400
   \<and> trace (snd (handler (upload ''text/plain'' truncated_png) (world_of [1 / 2])))
       = [ReadFormData]"
proof -
  have h4: "\<not> prefix ''image/'' (ftype \<lparr>ftype = ''text/plain'', fbytes = truncated_png\<rparr>)"
    by simp
  from handler_rejects_non_image
    [OF upload_fields(1) upload_fields(2) upload_fields(3) h4, where w = "world_of [1 / 2]"]
    upload_fields [of "''text/plain''" truncated_png]
  show ?thesis by (simp add: world_of_def)
qed

text \<open>
  Claim C8 says that the result of a call does not depend on the calls before it. The
  generator behind \<^verbatim>\<open>Math.random()\<close> is advanced by every prediction: the same upload
  is answered with \<^verbatim>\<open>T-shirt/top\<close> in a world whose generator delivers 0, 1/4, 1/4, 0,
  and with \<^verbatim>\<open>Pullover\<close> when it is handled again in the world left by the first call.
\<close>

theorem handler_depends_on_earlier_calls:
  "body (fst (handler (upload ''image/png'' zero_image) (world_of [0, 1 / 4, 1 / 4, 0])))
     = Some [(''predicted_class'', Str ''T-shirt/top''),
             (''confidence'', Num (1745144855606067 / 2251799813685248))]
   \<and> body (fst (handler (upload ''image/png'' zero_image)
        (snd (handler (upload ''image/png'' zero_image) (world_of [0, 1 / 4, 1 / 4, 0])))))
     = Some [(''predicted_class'', Str ''Pullover''),
             (''confidence'', Num (3152519739159347 / 4503599627370496))]
   \<and> fst (handler (upload ''image/png'' zero_image) (world_of [0, 1 / 4, 1 / 4, 0]))
     \<noteq> fst (handler (upload ''image/png'' zero_image)
        (snd (handler (upload ''image/png'' zero_image) (world_of [0, 1 / 4, 1 / 4, 0]))))"
  by (simp add: handler_upload_image_png json_response_def mockPrediction_result world_of_def
      index_at_0 index_at_quarter confidence_at_0 confidence_at_quarter array_get_def
      classNames_def JSON_stringify_def)

text \<open>
  Claim C8, as the code has it: the handler keeps no state of its own. Its response is
  determined by the request and by the next two numbers of the generator; the calls
  before it matter only through the position of the generator, which a call leaves
  where it was or advances by exactly two draws.
\<close>

theorem handler_stateless_up_to_generator:
  assumes "shd (rng w) = shd (rng w')" and "shd (stl (rng w)) = shd (stl (rng w'))"
  shows "fst (handler req w) = fst (handler req w')
    \<and> (rng (snd (handler req w)) = rng w \<or> rng (snd (handler req w)) = stl (stl (rng w)))"
  using handler_response_draws [OF assms] handler_rng by simp

theorem handler_stateless_up_to_generator_witness:
  "shd (rng (world_of [0, 1 / 4]))
     = shd (rng (snd (handler (upload ''image/png'' zero_image)
         (world_of [1 / 2, 1 / 2, 0, 1 / 4]))))
   \<and> shd (stl (rng (world_of [0, 1 / 4])))
     = shd (stl (rng (snd (handler (upload ''image/png'' zero_image)
         (world_of [1 / 2, 1 / 2, 0, 1 / 4])))))
   \<and> fst (handler (upload ''image/png'' zero_image) (world_of [0, 1 / 4]))
     = fst (handler (upload ''image/png'' zero_image)
         (snd (handler (upload ''image/png'' zero_image)
           (world_of [1 / 2, 1 / 2, 0, 1 / 4]))))"
proof -
  let ?req = "upload ''image/png'' zero_image"
  let ?later = "snd (handler ?req (world_of [1 / 2, 1 / 2, 0, 1 / 4]))"
  have h1: "shd (rng (world_of [0, 1 / 4])) = shd (rng ?later)"
    by (simp add: handler_upload_image_png world_of_def)
  have h2: "shd (stl (rng (world_of [0, 1 / 4]))) = shd (stl (rng ?later))"
    by (simp add: handler_upload_image_png world_of_def)
  from handler_stateless_up_to_generator [OF h1 h2, where req = ?req] h1 h2
  show ?thesis by simp
qed

text \<open>
  Claim C9: every response of the handler (preflight, success, 405, 400 and 500) carries
  the three CORS headers with the values of \<^verbatim>\<open>corsHeaders\<close>.
\<close>

theorem handler_cors_headers:
  "map_of (headers (fst (handler req w))) ''Access-Control-Allow-Origin'' = Some ''*''
   \<and> map_of (headers (fst (handler req w))) ''Access-Control-Allow-Methods''
       = Some ''GET, POST, PUT, DELETE, OPTIONS''
   \<and> map_of (headers (fst (handler req w))) ''Access-Control-Allow-Headers''
       = Some ''Content-Type, Authorization''"
  using handler_headers [of req w] by (auto simp add: corsHeaders_def)

text \<open>
  Claim C10: a request whose method is neither OPTIONS nor POST is answered with status
  405 and the JSON body \<^verbatim>\<open>{"error": "Method not allowed"}\<close>, and an OPTIONS request
  with status 200 and an empty body; in both cases the world is left as it was, so the
  body of the request was not read.
\<close>

theorem handler_method_dispatch:
  "(req_method req \<noteq> ''OPTIONS'' \<and> req_method req \<noteq> ''POST'' \<longrightarrow>
      status (fst (handler req w)) = 405
      \<and> body (fst (handler req w)) = Some [(''error'', Str ''Method not allowed'')]
      \<and> snd (handler req w) = w)
   \<and> (req_method req = ''OPTIONS'' \<longrightarrow>
      status (fst (handler req w)) = 200
      \<and> body (fst (handler req w)) = None
      \<and> snd (handler req w) = w)"
  by (simp add: handler_OPTIONS handler_not_POST json_response_def)

theorem handler_method_dispatch_witness:
  "req_method \<lparr>req_method = ''GET'', formData = Inr []\<rparr> \<noteq> ''OPTIONS''
   \<and> req_method \<lparr>req_method = ''GET'', formData = Inr []\<rparr> \<noteq> ''POST''
   \<and> status (fst (handler \<lparr>req_method = ''GET'', formData = Inr []\<rparr> (world_of []))) = 405
   \<and> body (fst (handler \<lparr>req_method = ''GET'', formData = Inr []\<rparr> (world_of [])))
       = Some [(''error'', Str ''Method not allowed'')]
   \<and> trace (snd (handler \<lparr>req_method = ''GET'', formData = Inr []\<rparr> (world_of []))) = []
   \<and> status (fst (handler \<lparr>req_method = ''OPTIONS'', formData = Inl OtherValue\<rparr>
         (world_of []))) = 200
   \<and> body (fst (handler \<lparr>req_method = ''OPTIONS'', formData = Inl OtherValue\<rparr>
         (world_of []))) = None
   \<and> trace (snd (handler \<lparr>req_method = ''OPTIONS'', formData = Inl OtherValue\<rparr>
         (world_of []))) = []"
  using
    handler_method_dispatch [of "\<lparr>req_method = ''GET'', formData = Inr []\<rparr>" "world_of []"]
    handler_method_dispatch
      [of "\<lparr>req_method = ''OPTIONS'', formData = Inl OtherValue\<rparr>" "world_of []"]
  by (simp add: world_of_def)

end
